theory Spec2Isabelle
  imports Main "HOL-Library.Sublist"
begin

section \<open>Python values, exceptions and the collaborators of the package\<close>

text \<open>
  The values that reach \<open>parse\<close>. A Python \<open>str\<close> is a \<open>string\<close>, one \<open>char\<close> for each
  code point; a quantity carries the name of its form, its magnitude and its unit.
\<close>

datatype pyobj =
    PyNone
  | PyInt int
  | PyStr string
  | PyList "pyobj list"
  | PyTuple "pyobj list"
  | PyQuantity string pyobj string

text \<open>
  Exceptions as values. \<open>BadCallError\<close> and \<open>NotImplementedParsingError\<close> are classes of
  \<open>_private.exceptions\<close> whose bodies are not among the sources at hand: a raise of one is
  recorded with the arguments given to its constructor. The four classes of
  \<open>no_standards_error.py\<close> carry the message their constructor builds. \<open>OtherError\<close> is
  any exception a collaborator raises (its class name and its message).
\<close>

datatype exn =
    BadCallError string
  | NotImplementedParsingError string string
  | NoStandardsError string
  | UnknownFormError string
  | LibraryNotFoundError string
  | LibraryWithoutParserError string
  | TypeError string
  | ImportError string
  | NameError string
  | IndexError
  | KeyError string
  | OtherError string string

text \<open>
  What the two source files import and do not define: the two digestion functions, the
  table of converters \<open>dict_translate_quantity\<close>, \<open>ast.literal_eval\<close>, the multiplication
  of the quantity library, the attribute \<open>__github_issues_web__\<close> of the package (and of
  the package \<open>sabueso\<close>, which may be absent), and the frames of the callers of \<open>parse\<close>.
\<close>

record pyenv =
  digest_parser :: "string option \<Rightarrow> exn + string"
  digest_to_form :: "string option \<Rightarrow> exn + string"
  dict_translate_quantity :: "string \<rightharpoonup> (string \<rightharpoonup> (pyobj \<Rightarrow> exn + pyobj))"
  literal_eval :: "string \<Rightarrow> exn + pyobj"
  py_mul :: "pyobj \<Rightarrow> pyobj \<Rightarrow> exn + pyobj"
  github_issues_web :: string
  sabueso_github_issues_web :: "string option"
  call_stack :: "string list"

section \<open>Runs: a result or an exception, with the collaborator calls made\<close>

datatype call =
    Call_digest_parser "string option"
  | Call_digest_to_form "string option"
  | Call_literal_eval string
  | Call_translate string string pyobj
  | Call_mul pyobj pyobj

type_synonym 'a run = "(exn + 'a) \<times> call list"

definition run_raise :: "exn \<Rightarrow> 'a run" where
  "run_raise e = (Inl e, [])"

definition run_extern :: "call \<Rightarrow> exn + 'a \<Rightarrow> 'a run" where
  "run_extern c r = (r, [c])"

definition run_bind :: "'a run \<Rightarrow> ('a \<Rightarrow> 'b run) \<Rightarrow> 'b run" where
  "run_bind m f =
     (case fst m of
        Inl e \<Rightarrow> (Inl e, snd m)
      | Inr x \<Rightarrow> (fst (f x), snd m @ snd (f x)))"

definition exn_bind :: "exn + 'a \<Rightarrow> ('a \<Rightarrow> exn + 'b) \<Rightarrow> exn + 'b" where
  "exn_bind m f = (case m of Inl e \<Rightarrow> Inl e | Inr x \<Rightarrow> f x)"

section \<open>The methods of \<open>str\<close> that the parser uses\<close>

definition startswith :: "string \<Rightarrow> string \<Rightarrow> bool" where
  "startswith s p = (take (length p) s = p)"

text \<open>\<open>s.rfind(c)\<close> for a one-character \<open>c\<close>: the highest index of \<open>c\<close> in \<open>s\<close>, or \<open>-1\<close>.\<close>

fun rfind :: "string \<Rightarrow> char \<Rightarrow> int" where
  "rfind [] c = - 1"
| "rfind (x # xs) c =
     (let r = rfind xs c in if 0 \<le> r then r + 1 else if x = c then 0 else - 1)"

text \<open>A slice bound: a negative bound counts from the end, and every bound is clipped.\<close>

definition slice_bound :: "string \<Rightarrow> int \<Rightarrow> nat" where
  "slice_bound s i = (if i < 0 then nat (int (length s) + i) else min (nat i) (length s))"

definition slice_to :: "string \<Rightarrow> int \<Rightarrow> string" where
  "slice_to s i = take (slice_bound s i) s"

definition slice_from :: "string \<Rightarrow> int \<Rightarrow> string" where
  "slice_from s i = drop (slice_bound s i) s"

section \<open>The exception classes of \<open>no_standards_error.py\<close>\<close>

text \<open>
  Every \<open>__init__\<close> takes the arguments of the call and \<open>frames\<close>, the function names on
  the call stack at the call (innermost first), so that \<open>inspect.stack()\<close> is
  \<open>__init__\<close> followed by \<open>frames\<close>. The result is \<open>Inr\<close> of the exception built, or
  \<open>Inl\<close> of the exception that building it raised.
\<close>

definition bind_args :: "nat \<Rightarrow> string list \<Rightarrow> exn + string list" where
  "bind_args n args = (if length args = n then Inr args else Inl (TypeError ''__init__''))"

definition stack :: "string list \<Rightarrow> string list" where
  "stack frames = ''__init__'' # frames"

definition frame_at :: "string list \<Rightarrow> nat \<Rightarrow> exn + string" where
  "frame_at fs i = (if i < length fs then Inr (fs ! i) else Inl IndexError)"

definition import_from :: "string \<Rightarrow> string option \<Rightarrow> exn + string" where
  "import_from module attr = (case attr of None \<Rightarrow> Inl (ImportError module) | Some v \<Rightarrow> Inr v)"

text \<open>A name in an f-string is read from the local variables of \<open>__init__\<close>; neither file
  has a module-level variable.\<close>

definition name_lookup :: "(string \<times> string) list \<Rightarrow> string \<Rightarrow> exn + string" where
  "name_lookup locals n = (case map_of locals n of None \<Rightarrow> Inl (NameError n) | Some v \<Rightarrow> Inr v)"

definition NoStandardsError_init :: "pyenv \<Rightarrow> string list \<Rightarrow> string list \<Rightarrow> exn + exn" where
  "NoStandardsError_init env frames args =
     exn_bind (bind_args 0 args) (\<lambda>_.
     exn_bind (import_from ''pyunitwizard'' (Some (github_issues_web env))) (\<lambda>web.
     exn_bind (frame_at (stack frames) 1) (\<lambda>caller_name.
       let locals = [(''__github_issues_web__'', web), (''caller_name'', caller_name),
                     (''api_doc'', '''')] in
       exn_bind (name_lookup locals ''api_doc'') (\<lambda>v1.
       exn_bind (name_lookup locals ''__github_issues_web__'') (\<lambda>v2.
         Inr (NoStandardsError
           (''The input quantity method has no standard. '' @
            ''A complete set of standard units need to be defined. '' @
            ''Check '' @ v1 @ '' for more information. '' @
            ''If you still need help, open a new issue in '' @ v2 @ ''.'')))))))"

definition UnknownFormError_init :: "pyenv \<Rightarrow> string list \<Rightarrow> string list \<Rightarrow> exn + exn" where
  "UnknownFormError_init env frames args =
     exn_bind (bind_args 0 args) (\<lambda>_.
     exn_bind (import_from ''sabueso'' (sabueso_github_issues_web env)) (\<lambda>web.
     exn_bind (frame_at (stack frames) 1) (\<lambda>caller_name.
       let locals = [(''__github_issues_web__'', web), (''caller_name'', caller_name),
                     (''api_doc'', '''')] in
       exn_bind (name_lookup locals ''method_name'') (\<lambda>v1.
       exn_bind (name_lookup locals ''api_doc'') (\<lambda>v2.
       exn_bind (name_lookup locals ''__github_issues_web__'') (\<lambda>v3.
         Inr (UnknownFormError
           (''The input quantity in '' @ [CHR 0x22] @ v1 @ [CHR 0x22] @
            '' has an unknown form. '' @
            ''Check '' @ v2 @ '' for more information. '' @
            ''If you still need help, open a new issue in '' @ v3 @ ''.''))))))))"

definition library_message :: "string \<Rightarrow> string \<Rightarrow> string \<Rightarrow> string" where
  "library_message library caller_name web =
     ''The python library '' @ library @ '' was not found. '' @
     ''Although '' @ library @ '' is not considered a dependency, it needs '' @
     ''to be installed to execute the '' @ caller_name @ '' method the way you require. '' @
     ''If you still need help, open a new issue in '' @ web @ ''.''"

definition LibraryNotFoundError_init :: "pyenv \<Rightarrow> string list \<Rightarrow> string list \<Rightarrow> exn + exn" where
  "LibraryNotFoundError_init env frames args =
     exn_bind (bind_args 1 args) (\<lambda>bound.
     exn_bind (import_from ''pyunitwizard'' (Some (github_issues_web env))) (\<lambda>web.
     exn_bind (frame_at (stack frames) 1) (\<lambda>caller_name.
       let locals = [(''library'', hd bound), (''__github_issues_web__'', web),
                     (''caller_name'', caller_name), (''api_doc'', '''')] in
       exn_bind (name_lookup locals ''library'') (\<lambda>v1.
       exn_bind (name_lookup locals ''caller_name'') (\<lambda>v2.
       exn_bind (name_lookup locals ''__github_issues_web__'') (\<lambda>v3.
         Inr (LibraryNotFoundError (library_message v1 v2 v3))))))))"

definition LibraryWithoutParserError_init :: "pyenv \<Rightarrow> string list \<Rightarrow> string list \<Rightarrow> exn + exn" where
  "LibraryWithoutParserError_init env frames args =
     exn_bind (bind_args 1 args) (\<lambda>bound.
     exn_bind (import_from ''pyunitwizard'' (Some (github_issues_web env))) (\<lambda>web.
     exn_bind (frame_at (stack frames) 1) (\<lambda>caller_name.
       let locals = [(''library'', hd bound), (''__github_issues_web__'', web),
                     (''caller_name'', caller_name), (''api_doc'', '''')] in
       exn_bind (name_lookup locals ''library'') (\<lambda>v1.
       exn_bind (name_lookup locals ''caller_name'') (\<lambda>v2.
       exn_bind (name_lookup locals ''__github_issues_web__'') (\<lambda>v3.
         Inr (LibraryWithoutParserError (library_message v1 v2 v3))))))))"

text \<open>\<open>raise C(...)\<close>: the exception built, or the one that building it raised.\<close>

definition raise_new :: "exn + exn \<Rightarrow> 'a run" where
  "raise_new r = (case r of Inl e \<Rightarrow> run_raise e | Inr e \<Rightarrow> run_raise e)"

section \<open>\<open>parse.py\<close>\<close>

text \<open>\<open>dict_translate_quantity[src][dst](x)\<close>: two subscripts, then the call.\<close>

definition translate_quantity :: "pyenv \<Rightarrow> string \<Rightarrow> string \<Rightarrow> pyobj \<Rightarrow> pyobj run" where
  "translate_quantity env src dst x =
     (case dict_translate_quantity env src of
        None \<Rightarrow> run_raise (KeyError src)
      | Some row \<Rightarrow>
          (case row dst of
             None \<Rightarrow> run_raise (KeyError dst)
           | Some f \<Rightarrow> run_extern (Call_translate src dst x) (f x)))"

definition end_list :: "string \<Rightarrow> int" where
  "end_list s = max (rfind s CHR '')'' + 1) (rfind s CHR '']'' + 1)"

definition value_string :: "string \<Rightarrow> string" where
  "value_string s = slice_to s (end_list s)"

definition unit_string :: "string \<Rightarrow> string" where
  "unit_string s = slice_from s (end_list s)"

definition parse_with_pint :: "pyenv \<Rightarrow> string \<Rightarrow> pyobj run" where
  "parse_with_pint env s =
     (if startswith s ''['' \<or> startswith s ''('' then
        run_bind (run_extern (Call_literal_eval (value_string s))
                    (literal_eval env (value_string s))) (\<lambda>v.
        run_bind (translate_quantity env ''string'' ''pint'' (PyStr (unit_string s))) (\<lambda>u.
          run_extern (Call_mul v u) (py_mul env v u)))
      else translate_quantity env ''string'' ''pint'' (PyStr s))"

definition parse :: "pyenv \<Rightarrow> pyobj \<Rightarrow> string option \<Rightarrow> string option \<Rightarrow> pyobj run" where
  "parse env string parser to_form =
     (case string of
        PyStr s \<Rightarrow>
          run_bind (run_extern (Call_digest_parser parser) (digest_parser env parser)) (\<lambda>parser.
          run_bind (run_extern (Call_digest_to_form to_form) (digest_to_form env to_form)) (\<lambda>to_form.
            if parser = ''pint'' then
              if to_form = ''pint'' then parse_with_pint env s
              else if to_form = ''openmm.unit'' then
                run_bind (parse_with_pint env s) (translate_quantity env ''pint'' ''openmm.unit'')
              else if to_form = ''string'' then
                run_bind (parse_with_pint env s) (translate_quantity env ''pint'' ''string'')
              else if to_form = ''unyt'' then
                run_bind (parse_with_pint env s) (translate_quantity env ''pint'' ''unyt'')
              else run_raise (NotImplementedParsingError parser to_form)
            else if parser = ''openmm.unit'' then
              raise_new (LibraryWithoutParserError_init env (''parse'' # call_stack env)
                           [''openmm.unit''])
            else if parser = ''unyt'' then
              raise_new (LibraryWithoutParserError_init env (''parse'' # call_stack env)
                           [''unyt''])
            else run_raise (NotImplementedParsingError parser to_form)))
      | _ \<Rightarrow> run_raise (BadCallError ''string''))"

text \<open>\<open>isinstance(x, str)\<close>, the test that opens \<open>parse\<close>.\<close>

fun isinstance_str :: "pyobj \<Rightarrow> bool" where
  "isinstance_str (PyStr s) = True"
| "isinstance_str x = False"

section \<open>A concrete environment for the examples\<close>

text \<open>
  A small stand-in for the collaborators, used only where a theorem is applied to a
  concrete call: the digestion functions accept the names of a fixed list (\<open>pint\<close> when
  none is given), the parser of strings makes one unit of its argument, a pint quantity is
  converted by renaming its form, \<open>literal_eval\<close> knows the list \<open>[1, 2]\<close> and multiplying
  puts a magnitude in front of a unit.
\<close>

definition example_digest :: "string option \<Rightarrow> exn + string" where
  "example_digest x =
     (case x of
        None \<Rightarrow> Inr ''pint''
      | Some n \<Rightarrow>
          if n \<in> set [''pint'', ''openmm.unit'', ''unyt'', ''string'', ''astropy.units'']
          then Inr n else Inl (OtherError ''NotImplementedFormError'' n))"

fun example_from_string :: "pyobj \<Rightarrow> exn + pyobj" where
  "example_from_string (PyStr u) = Inr (PyQuantity ''pint'' (PyInt 1) u)"
| "example_from_string x = Inl (OtherError ''TypeError'' ''str expected'')"

fun example_to_form :: "string \<Rightarrow> pyobj \<Rightarrow> exn + pyobj" where
  "example_to_form f (PyQuantity g m u) = Inr (PyQuantity f m u)"
| "example_to_form f x = Inl (OtherError ''TypeError'' ''quantity expected'')"

definition example_literal_eval :: "string \<Rightarrow> exn + pyobj" where
  "example_literal_eval s =
     (if s = ''[1, 2]'' then Inr (PyList [PyInt 1, PyInt 2])
      else Inl (OtherError ''SyntaxError'' s))"

fun example_mul :: "pyobj \<Rightarrow> pyobj \<Rightarrow> exn + pyobj" where
  "example_mul v (PyQuantity f m u) = Inr (PyQuantity f v u)"
| "example_mul v x = Inl (OtherError ''TypeError'' ''quantity expected'')"

definition example_table :: "string \<rightharpoonup> (string \<rightharpoonup> (pyobj \<Rightarrow> exn + pyobj))" where
  "example_table =
     [''string'' \<mapsto> [''pint'' \<mapsto> example_from_string],
      ''pint'' \<mapsto> [''openmm.unit'' \<mapsto> example_to_form ''openmm.unit'',
                   ''string'' \<mapsto> example_to_form ''string'',
                   ''unyt'' \<mapsto> example_to_form ''unyt'']]"

definition example_env :: pyenv where
  "example_env =
     \<lparr> digest_parser = example_digest,
       digest_to_form = example_digest,
       dict_translate_quantity = example_table,
       literal_eval = example_literal_eval,
       py_mul = example_mul,
       github_issues_web = ''https://github.com/uibcdf/PyUnitWizard/issues'',
       sabueso_github_issues_web = Some ''https://github.com/uibcdf/Sabueso/issues'',
       call_stack = [''<module>''] \<rparr>"

section \<open>Facts about \<open>rfind\<close> and the slices\<close>

lemma rfind_range: "- 1 \<le> rfind s c \<and> rfind s c < int (length s)"
  by (induction s) (auto simp: Let_def)

lemma rfind_absent: "c \<notin> set s \<Longrightarrow> rfind s c = - 1"
  by (induction s) (auto simp: Let_def)

lemma rfind_present: "c \<in> set s \<Longrightarrow> 0 \<le> rfind s c \<and> s ! nat (rfind s c) = c"
proof (induction s)
  case Nil
  then show ?case by simp
next
  case (Cons x xs)
  show ?case
  proof (cases "c \<in> set xs")
    case True
    with Cons.IH have "0 \<le> rfind xs c" and "xs ! nat (rfind xs c) = c" by simp_all
    then show ?thesis by (simp add: Let_def nat_add_distrib)
  next
    case False
    with Cons.prems have "x = c" by simp
    with False show ?thesis by (simp add: rfind_absent)
  qed
qed

lemma rfind_last: "rfind s c < int j \<Longrightarrow> j < length s \<Longrightarrow> s ! j \<noteq> c"
proof (induction s arbitrary: j)
  case Nil
  then show ?case by simp
next
  case (Cons x xs)
  show ?case
  proof (cases j)
    case 0
    with Cons.prems show ?thesis by (auto simp: Let_def split: if_splits)
  next
    case (Suc k)
    with Cons.prems have "rfind xs c < int k" and "k < length xs"
      by (auto simp: Let_def split: if_splits)
    with Cons.IH have "xs ! k \<noteq> c" by blast
    with Suc show ?thesis by simp
  qed
qed

lemma rfind_unique:
  assumes "i < length s" and "s ! i = c"
    and "\<forall>j. i < j \<and> j < length s \<longrightarrow> s ! j \<noteq> c"
  shows "rfind s c = int i"
proof -
  from assms(1,2) have mem: "c \<in> set s" by (metis nth_mem)
  with rfind_present have r0: "0 \<le> rfind s c" and rc: "s ! nat (rfind s c) = c" by simp_all
  from rfind_range have rl: "nat (rfind s c) < length s" using r0 by (simp add: nat_less_iff)
  have "\<not> int i < rfind s c"
  proof
    assume "int i < rfind s c"
    then have "i < nat (rfind s c)" by simp
    with assms(3) rl rc show False by blast
  qed
  moreover have "\<not> rfind s c < int i"
    using rfind_last assms(1,2) by blast
  ultimately show ?thesis by simp
qed

lemma end_list_range: "0 \<le> end_list s \<and> end_list s \<le> int (length s)"
  using rfind_range [of s "CHR '')''"] rfind_range [of s "CHR '']''"]
  unfolding end_list_def by linarith

lemma slice_bound_nat: "0 \<le> i \<Longrightarrow> i \<le> int (length s) \<Longrightarrow> slice_bound s i = nat i"
  by (simp add: slice_bound_def)

section \<open>Facts about runs and the split point\<close>

lemma run_bind_fst: "fst (run_bind m f) = exn_bind (fst m) (\<lambda>x. fst (f x))"
  by (simp add: run_bind_def exn_bind_def split: sum.splits)

lemma run_extern_fst: "fst (run_extern c r) = r"
  by (simp add: run_extern_def)

lemma split_at:
  "value_string s = take (nat (end_list s)) s \<and> unit_string s = drop (nat (end_list s)) s"
proof -
  from end_list_range [of s] have "slice_bound s (end_list s) = nat (end_list s)"
    by (simp add: slice_bound_nat)
  then show ?thesis
    by (simp add: value_string_def unit_string_def slice_to_def slice_from_def)
qed

lemma end_list_at_last:
  assumes i: "i < length s"
    and c: "s ! i = CHR '')'' \<or> s ! i = CHR '']''"
    and l: "\<forall>j. i < j \<and> j < length s \<longrightarrow> s ! j \<noteq> CHR '')'' \<and> s ! j \<noteq> CHR '']''"
  shows "end_list s = int i + 1"
proof -
  have le: "rfind s d \<le> int i" if "d = CHR '')'' \<or> d = CHR '']''" for d
  proof (rule ccontr)
    assume "\<not> rfind s d \<le> int i"
    then have gt: "int i < rfind s d" by simp
    then have "0 \<le> rfind s d" by simp
    have "d \<in> set s"
    proof (rule ccontr)
      assume "d \<notin> set s"
      then have "rfind s d = - 1" by (rule rfind_absent)
      with gt show False by simp
    qed
    then have "s ! nat (rfind s d) = d" using rfind_present by blast
    moreover have "nat (rfind s d) < length s" using rfind_range [of s d] gt by simp
    moreover have "i < nat (rfind s d)" using gt by simp
    ultimately show False using l that by blast
  qed
  from c show ?thesis
  proof
    assume a: "s ! i = CHR '')''"
    from l have "\<forall>j. i < j \<and> j < length s \<longrightarrow> s ! j \<noteq> CHR '')''" by blast
    with i a have "rfind s CHR '')'' = int i" by (rule rfind_unique)
    moreover have "rfind s CHR '']'' \<le> int i" by (rule le) simp
    ultimately show ?thesis by (simp add: end_list_def)
  next
    assume a: "s ! i = CHR '']''"
    from l have "\<forall>j. i < j \<and> j < length s \<longrightarrow> s ! j \<noteq> CHR '']''" by blast
    with i a have "rfind s CHR '']'' = int i" by (rule rfind_unique)
    moreover have "rfind s CHR '')'' \<le> int i" by (rule le) simp
    ultimately show ?thesis by (simp add: end_list_def)
  qed
qed

lemma parse_with_pint_sequence:
  assumes "startswith s ''['' \<or> startswith s ''(''"
  shows "fst (parse_with_pint env s) =
         exn_bind (literal_eval env (value_string s)) (\<lambda>v.
         exn_bind (fst (translate_quantity env ''string'' ''pint'' (PyStr (unit_string s)))) (\<lambda>u.
           py_mul env v u))"
  using assms by (simp add: parse_with_pint_def run_bind_fst run_extern_fst)

section \<open>The split of a sequence-valued string\<close>

text \<open>
  C1. When the string starts with \<open>[\<close> or \<open>(\<close> and \<open>i\<close> is the position of the last
  \<open>)\<close> or \<open>]\<close> of the whole string (whichever of the two characters stands there), the
  split point is \<open>i + 1\<close>: the payload is the string up to and including position \<open>i\<close>,
  the unit string is everything after it, and the result is \<open>literal_eval\<close> of the payload
  multiplied by the quantity that the string-to-pint converter makes of the unit string
  (an exception of either collaborator, in that order, is the result instead).
\<close>

theorem split_after_last_closing_bracket:
  assumes "startswith s ''['' \<or> startswith s ''(''"
    and "i < length s"
    and "s ! i = CHR '')'' \<or> s ! i = CHR '']''"
    and "\<forall>j. i < j \<and> j < length s \<longrightarrow> s ! j \<noteq> CHR '')'' \<and> s ! j \<noteq> CHR '']''"
  shows "end_list s = int i + 1 \<and>
         value_string s = take (Suc i) s \<and>
         unit_string s = drop (Suc i) s \<and>
         fst (parse_with_pint env s) =
           exn_bind (literal_eval env (take (Suc i) s)) (\<lambda>v.
           exn_bind (fst (translate_quantity env ''string'' ''pint'' (PyStr (drop (Suc i) s)))) (\<lambda>u.
             py_mul env v u))"
proof -
  from assms(2-4) have e: "end_list s = int i + 1" by (rule end_list_at_last)
  then have n: "nat (end_list s) = Suc i" by simp
  from split_at [of s] n have v: "value_string s = take (Suc i) s"
    and u: "unit_string s = drop (Suc i) s" by simp_all
  from parse_with_pint_sequence [OF assms(1), of env] v u e show ?thesis by simp
qed

theorem split_after_last_closing_bracket_witness:
  "(startswith ''[1, 2] nm'' ''['' \<or> startswith ''[1, 2] nm'' ''('') \<and>
   5 < length ''[1, 2] nm'' \<and>
   (''[1, 2] nm'' ! 5 = CHR '')'' \<or> ''[1, 2] nm'' ! 5 = CHR '']'') \<and>
   \<not> (\<exists>j. 5 < j \<and> j < length ''[1, 2] nm'' \<and>
      (''[1, 2] nm'' ! j = CHR '')'' \<or> ''[1, 2] nm'' ! j = CHR '']'')) \<and>
   end_list ''[1, 2] nm'' = 6 \<and>
   value_string ''[1, 2] nm'' = ''[1, 2]'' \<and>
   unit_string ''[1, 2] nm'' = '' nm'' \<and>
   fst (parse_with_pint example_env ''[1, 2] nm'') =
     Inr (PyQuantity ''pint'' (PyList [PyInt 1, PyInt 2]) '' nm'')"
proof -
  have h1: "startswith ''[1, 2] nm'' ''['' \<or> startswith ''[1, 2] nm'' ''(''"
    by (simp add: startswith_def)
  have h2: "5 < length ''[1, 2] nm''" by simp
  have h3: "''[1, 2] nm'' ! 5 = CHR '')'' \<or> ''[1, 2] nm'' ! 5 = CHR '']''" by simp
  have h4: "\<forall>j. 5 < j \<and> j < length ''[1, 2] nm'' \<longrightarrow>
      ''[1, 2] nm'' ! j \<noteq> CHR '')'' \<and> ''[1, 2] nm'' ! j \<noteq> CHR '']''"
  proof (intro allI impI)
    fix j :: nat
    assume "5 < j \<and> j < length ''[1, 2] nm''"
    then have "j = 6 \<or> j = 7 \<or> j = 8" by auto
    then show "''[1, 2] nm'' ! j \<noteq> CHR '')'' \<and> ''[1, 2] nm'' ! j \<noteq> CHR '']''"
      by auto
  qed
  from h4 have h5: "\<not> (\<exists>j. 5 < j \<and> j < length ''[1, 2] nm'' \<and>
      (''[1, 2] nm'' ! j = CHR '')'' \<or> ''[1, 2] nm'' ! j = CHR '']''))"
    by blast
  from split_after_last_closing_bracket [OF h1 h2 h3 h4, of example_env] h1 h2 h3 h5
  show ?thesis
    by (simp add: example_env_def example_literal_eval_def example_table_def
        translate_quantity_def run_extern_def exn_bind_def)
qed

text \<open>
  C2, as amended. The claim that a \<open>]\<close> stays the boundary when a \<open>)\<close> follows it does
  not hold: \<open>end_list\<close> is the larger of the two \<open>rfind\<close> results. When the string starts
  with a bracket and has a \<open>]\<close> at \<open>k\<close> and, after it, a \<open>)\<close> at \<open>i\<close> that is the last
  closing bracket of the string, the split point is \<open>i + 1\<close>, one past the \<open>)\<close>, and not
  \<open>k + 1\<close>: the payload runs up to and including the \<open>)\<close>. The string \<open>[1, 2] (nm)\<close>
  shows it: its payload is the whole string and its unit string is empty.
\<close>

theorem later_paren_is_the_boundary:
  assumes "startswith s ''['' \<or> startswith s ''(''"
    and "k < i" and "i < length s"
    and "s ! k = CHR '']''" and "s ! i = CHR '')''"
    and "\<forall>j. i < j \<and> j < length s \<longrightarrow> s ! j \<noteq> CHR '')'' \<and> s ! j \<noteq> CHR '']''"
  shows "end_list s = int i + 1 \<and> end_list s \<noteq> int k + 1 \<and>
         value_string s = take (Suc i) s \<and> unit_string s = drop (Suc i) s"
proof -
  from assms(5) have "s ! i = CHR '')'' \<or> s ! i = CHR '']''" by simp
  with assms(3) have e: "end_list s = int i + 1" using assms(6) by (rule end_list_at_last)
  then have n: "nat (end_list s) = Suc i" by simp
  from split_at [of s] n e assms(2) show ?thesis by simp
qed

theorem later_paren_is_the_boundary_witness:
  "(startswith ''[1, 2] (nm)'' ''['' \<or> startswith ''[1, 2] (nm)'' ''('') \<and>
   ''[1, 2] (nm)'' ! 5 = CHR '']'' \<and> ''[1, 2] (nm)'' ! 10 = CHR '')'' \<and>
   end_list ''[1, 2] (nm)'' = 11 \<and> end_list ''[1, 2] (nm)'' \<noteq> 6 \<and>
   value_string ''[1, 2] (nm)'' = ''[1, 2] (nm)'' \<and> unit_string ''[1, 2] (nm)'' = []"
proof -
  have h1: "startswith ''[1, 2] (nm)'' ''['' \<or> startswith ''[1, 2] (nm)'' ''(''"
    by (simp add: startswith_def)
  have h6: "\<forall>j. 10 < j \<and> j < length ''[1, 2] (nm)'' \<longrightarrow>
      ''[1, 2] (nm)'' ! j \<noteq> CHR '')'' \<and> ''[1, 2] (nm)'' ! j \<noteq> CHR '']''"
    by simp
  from later_paren_is_the_boundary [of "''[1, 2] (nm)''" 5 10, OF h1 _ _ _ _ h6] h1
  show ?thesis by simp
qed

theorem bracket_boundary_counterexample:
  "startswith ''[1, 2] (nm)'' ''['' \<and>
   rfind ''[1, 2] (nm)'' CHR '']'' = 5 \<and> rfind ''[1, 2] (nm)'' CHR '')'' = 10 \<and>
   end_list ''[1, 2] (nm)'' \<noteq> rfind ''[1, 2] (nm)'' CHR '']'' + 1 \<and>
   value_string ''[1, 2] (nm)'' \<noteq> ''[1, 2]'' \<and>
   unit_string ''[1, 2] (nm)'' \<noteq> '' (nm)''"
  by (simp add: startswith_def end_list_def value_string_def unit_string_def
      slice_to_def slice_from_def slice_bound_def)

text \<open>
  C6. When the string starts with \<open>[\<close> or \<open>(\<close> and holds neither \<open>)\<close> nor \<open>]\<close>, both
  \<open>rfind\<close> calls give \<open>-1\<close> and the split point is \<open>0\<close>: the payload is the empty string
  and the unit string is the whole input. The split raises nothing; the function goes on
  to call \<open>literal_eval\<close> on the empty payload and the string-to-pint converter on the
  whole string, and only what these collaborators answer decides the outcome.
\<close>

theorem no_closing_bracket_split:
  assumes "startswith s ''['' \<or> startswith s ''(''"
    and "CHR '')'' \<notin> set s" and "CHR '']'' \<notin> set s"
  shows "end_list s = 0 \<and> value_string s = [] \<and> unit_string s = s \<and>
         parse_with_pint env s =
           run_bind (run_extern (Call_literal_eval []) (literal_eval env [])) (\<lambda>v.
           run_bind (translate_quantity env ''string'' ''pint'' (PyStr s)) (\<lambda>u.
             run_extern (Call_mul v u) (py_mul env v u)))"
proof -
  from assms(2,3) have e: "end_list s = 0" by (simp add: end_list_def rfind_absent)
  with split_at [of s] have v: "value_string s = []" and u: "unit_string s = s" by simp_all
  from assms(1) e v u show ?thesis by (simp add: parse_with_pint_def)
qed

theorem no_closing_bracket_split_witness:
  "(startswith ''[1, 2 nm'' ''['' \<or> startswith ''[1, 2 nm'' ''('') \<and>
   CHR '')'' \<notin> set ''[1, 2 nm'' \<and> CHR '']'' \<notin> set ''[1, 2 nm'' \<and>
   end_list ''[1, 2 nm'' = 0 \<and> value_string ''[1, 2 nm'' = [] \<and>
   unit_string ''[1, 2 nm'' = ''[1, 2 nm'' \<and>
   parse_with_pint example_env ''[1, 2 nm'' =
     (Inl (OtherError ''SyntaxError'' []), [Call_literal_eval []])"
proof -
  have h1: "startswith ''[1, 2 nm'' ''['' \<or> startswith ''[1, 2 nm'' ''(''"
    by (simp add: startswith_def)
  have h2: "CHR '')'' \<notin> set ''[1, 2 nm''" by simp
  have h3: "CHR '']'' \<notin> set ''[1, 2 nm''" by simp
  from no_closing_bracket_split [OF h1 h2 h3, of example_env] h1 h2 h3
  show ?thesis
    by (simp add: example_env_def example_literal_eval_def run_bind_def run_extern_def)
qed

text \<open>
  C10. For a string that starts with \<open>[\<close> or \<open>(\<close>, the payload followed by the unit
  string is the input again, and the split point lies between \<open>0\<close> and the length of the
  string, both included.
\<close>

theorem split_is_partition:
  assumes "startswith s ''['' \<or> startswith s ''(''"
  shows "value_string s @ unit_string s = s \<and> 0 \<le> end_list s \<and> end_list s \<le> int (length s)"
  using end_list_range [of s]
  by (simp add: value_string_def unit_string_def slice_to_def slice_from_def)

theorem split_is_partition_witness:
  "(startswith ''(1, 2) kJ/mol'' ''['' \<or> startswith ''(1, 2) kJ/mol'' ''('') \<and>
   value_string ''(1, 2) kJ/mol'' = ''(1, 2)'' \<and> unit_string ''(1, 2) kJ/mol'' = '' kJ/mol'' \<and>
   value_string ''(1, 2) kJ/mol'' @ unit_string ''(1, 2) kJ/mol'' = ''(1, 2) kJ/mol'' \<and>
   0 \<le> end_list ''(1, 2) kJ/mol'' \<and>
   end_list ''(1, 2) kJ/mol'' \<le> int (length ''(1, 2) kJ/mol'')"
  using split_is_partition [of "''(1, 2) kJ/mol''"]
  by (simp add: startswith_def value_string_def unit_string_def end_list_def
      slice_to_def slice_from_def slice_bound_def)

section \<open>The branches of \<open>parse\<close>\<close>

lemma parse_after_digest:
  assumes "digest_parser env parser = Inr pf" and "digest_to_form env to_form = Inr tf"
  shows "parse env (PyStr s) parser to_form =
         run_bind (run_extern (Call_digest_parser parser) (Inr pf)) (\<lambda>pf.
         run_bind (run_extern (Call_digest_to_form to_form) (Inr tf)) (\<lambda>tf.
           if pf = ''pint'' then
             if tf = ''pint'' then parse_with_pint env s
             else if tf = ''openmm.unit'' then
               run_bind (parse_with_pint env s) (translate_quantity env ''pint'' ''openmm.unit'')
             else if tf = ''string'' then
               run_bind (parse_with_pint env s) (translate_quantity env ''pint'' ''string'')
             else if tf = ''unyt'' then
               run_bind (parse_with_pint env s) (translate_quantity env ''pint'' ''unyt'')
             else run_raise (NotImplementedParsingError pf tf)
           else if pf = ''openmm.unit'' then
             raise_new (LibraryWithoutParserError_init env (''parse'' # call_stack env)
                          [''openmm.unit''])
           else if pf = ''unyt'' then
             raise_new (LibraryWithoutParserError_init env (''parse'' # call_stack env)
                          [''unyt''])
           else run_raise (NotImplementedParsingError pf tf)))"
  using assms by (simp add: parse_def)

lemma run_bind_extern_Inr:
  "run_bind (run_extern c (Inr x)) f = (fst (f x), c # snd (f x))"
  by (simp add: run_bind_def run_extern_def)

lemma LibraryWithoutParserError_in_parse:
  "raise_new (LibraryWithoutParserError_init env (''parse'' # fs) [lib]) =
   (Inl (LibraryWithoutParserError (library_message lib ''parse'' (github_issues_web env))), [])"
  by (simp add: raise_new_def LibraryWithoutParserError_init_def exn_bind_def bind_args_def
      import_from_def frame_at_def stack_def name_lookup_def run_raise_def)

lemma library_message_names_library: "sublist lib (library_message lib caller web)"
  unfolding library_message_def by (rule sublist_appendI)

text \<open>
  C3. When the first argument is a \<open>str\<close>, the parser digests to \<open>openmm.unit\<close> or to
  \<open>unyt\<close> and \<open>to_form\<close> digests to anything at all, \<open>parse\<close> raises
  \<open>LibraryWithoutParserError\<close>, whose message holds the name of that library, and the
  only collaborator calls made are the two digestions: neither \<open>literal_eval\<close> nor a
  converter of the table is called.
\<close>

theorem parse_library_without_parser:
  assumes "digest_parser env parser = Inr lib"
    and "lib = ''openmm.unit'' \<or> lib = ''unyt''"
    and "digest_to_form env to_form = Inr tf"
  shows "parse env (PyStr s) parser to_form =
           (Inl (LibraryWithoutParserError
                   (library_message lib ''parse'' (github_issues_web env))),
            [Call_digest_parser parser, Call_digest_to_form to_form]) \<and>
         sublist lib (library_message lib ''parse'' (github_issues_web env))"
proof -
  from assms(2) have "parse env (PyStr s) parser to_form =
           (Inl (LibraryWithoutParserError
                   (library_message lib ''parse'' (github_issues_web env))),
            [Call_digest_parser parser, Call_digest_to_form to_form])"
    unfolding parse_after_digest [OF assms(1,3)] run_bind_extern_Inr
    by (auto simp: LibraryWithoutParserError_in_parse)
  then show ?thesis by (simp add: library_message_names_library)
qed

theorem parse_library_without_parser_witness:
  "parse example_env (PyStr ''10 nm'') (Some ''openmm.unit'') (Some ''string'') =
     (Inl (LibraryWithoutParserError
        (library_message ''openmm.unit'' ''parse''
           ''https://github.com/uibcdf/PyUnitWizard/issues'')),
      [Call_digest_parser (Some ''openmm.unit''), Call_digest_to_form (Some ''string'')]) \<and>
   parse example_env (PyStr ''[1, 2] nm'') (Some ''unyt'') None =
     (Inl (LibraryWithoutParserError
        (library_message ''unyt'' ''parse''
           ''https://github.com/uibcdf/PyUnitWizard/issues'')),
      [Call_digest_parser (Some ''unyt''), Call_digest_to_form None]) \<and>
   sublist ''unyt'' (library_message ''unyt'' ''parse''
           ''https://github.com/uibcdf/PyUnitWizard/issues'')"
proof -
  have a: "digest_parser example_env (Some ''openmm.unit'') = Inr ''openmm.unit''"
    by (simp add: example_env_def example_digest_def)
  have b: "digest_to_form example_env (Some ''string'') = Inr ''string''"
    by (simp add: example_env_def example_digest_def)
  have c: "digest_parser example_env (Some ''unyt'') = Inr ''unyt''"
    by (simp add: example_env_def example_digest_def)
  have d: "digest_to_form example_env None = Inr ''pint''"
    by (simp add: example_env_def example_digest_def)
  have w: "github_issues_web example_env = ''https://github.com/uibcdf/PyUnitWizard/issues''"
    by (simp add: example_env_def)
  from parse_library_without_parser [OF a _ b, of "''10 nm''"]
    parse_library_without_parser [OF c _ d, of "''[1, 2] nm''"] w
  show ?thesis by simp
qed

text \<open>
  C4. When the first argument is not a \<open>str\<close>, \<open>parse\<close> raises \<open>BadCallError\<close> with the
  argument name \<open>string\<close>, whatever the other two arguments and the collaborators are,
  and no collaborator has been called: neither digestion takes place.
\<close>

theorem parse_non_string:
  assumes "\<not> isinstance_str x"
  shows "parse env x parser to_form = (Inl (BadCallError ''string''), [])"
  using assms by (cases x) (simp_all add: parse_def run_raise_def)

theorem parse_non_string_witness:
  "\<not> isinstance_str (PyInt 123) \<and>
   parse example_env (PyInt 123) None None = (Inl (BadCallError ''string''), []) \<and>
   parse example_env (PyList [PyStr ''10 nm'']) (Some ''no such parser'') (Some ''pint'') =
     (Inl (BadCallError ''string''), [])"
proof -
  have a: "\<not> isinstance_str (PyInt 123)" by simp
  have b: "\<not> isinstance_str (PyList [PyStr ''10 nm''])" by simp
  from parse_non_string [OF a, of example_env None None]
    parse_non_string [OF b, of example_env "Some ''no such parser''" "Some ''pint''"] a
  show ?thesis by simp
qed

text \<open>
  C5. When the first argument is a \<open>str\<close>, both digestions succeed, and either the parser
  digests to \<open>pint\<close> while \<open>to_form\<close> digests to none of \<open>pint\<close>, \<open>openmm.unit\<close>,
  \<open>string\<close>, \<open>unyt\<close>, or the parser digests to none of \<open>pint\<close>, \<open>openmm.unit\<close>,
  \<open>unyt\<close>, then \<open>parse\<close> raises \<open>NotImplementedParsingError\<close> with the digested parser
  and the digested target form, and returns no value.
\<close>

theorem parse_not_implemented:
  assumes "digest_parser env parser = Inr pf"
    and "digest_to_form env to_form = Inr tf"
    and "(pf = ''pint'' \<and> tf \<notin> set [''pint'', ''openmm.unit'', ''string'', ''unyt'']) \<or>
         pf \<notin> set [''pint'', ''openmm.unit'', ''unyt'']"
  shows "parse env (PyStr s) parser to_form =
           (Inl (NotImplementedParsingError pf tf),
            [Call_digest_parser parser, Call_digest_to_form to_form])"
  using assms(3)
  unfolding parse_after_digest [OF assms(1,2)] run_bind_extern_Inr
  by (auto simp: run_raise_def)

theorem parse_not_implemented_witness:
  "parse example_env (PyStr ''10 nm'') (Some ''pint'') (Some ''astropy.units'') =
     (Inl (NotImplementedParsingError ''pint'' ''astropy.units''),
      [Call_digest_parser (Some ''pint''), Call_digest_to_form (Some ''astropy.units'')]) \<and>
   parse example_env (PyStr ''10 nm'') (Some ''string'') None =
     (Inl (NotImplementedParsingError ''string'' ''pint''),
      [Call_digest_parser (Some ''string''), Call_digest_to_form None])"
proof -
  have a: "digest_parser example_env (Some ''pint'') = Inr ''pint''"
    by (simp add: example_env_def example_digest_def)
  have b: "digest_to_form example_env (Some ''astropy.units'') = Inr ''astropy.units''"
    by (simp add: example_env_def example_digest_def)
  have c: "digest_parser example_env (Some ''string'') = Inr ''string''"
    by (simp add: example_env_def example_digest_def)
  have d: "digest_to_form example_env None = Inr ''pint''"
    by (simp add: example_env_def example_digest_def)
  from parse_not_implemented [OF a b, of "''10 nm''"]
    parse_not_implemented [OF c d, of "''10 nm''"]
  show ?thesis by simp
qed

text \<open>
  C7. When the first argument is a \<open>str\<close> and the parser digests to \<open>pint\<close>: if
  \<open>to_form\<close> digests to \<open>pint\<close>, the result of \<open>parse\<close> is the result of
  \<open>_parse_with_pint\<close> on the string; if it digests to \<open>openmm.unit\<close>, \<open>string\<close> or
  \<open>unyt\<close>, the result is that of \<open>_parse_with_pint\<close> handed to the entry of
  \<open>dict_translate_quantity\<close> for \<open>pint\<close> and that form (an exception of the parse comes
  first).
\<close>

theorem parse_routes_through_pint:
  assumes "digest_parser env parser = Inr ''pint''"
    and "digest_to_form env to_form = Inr tf"
  shows "(tf = ''pint'' \<longrightarrow>
            fst (parse env (PyStr s) parser to_form) = fst (parse_with_pint env s)) \<and>
         (tf \<in> set [''openmm.unit'', ''string'', ''unyt''] \<longrightarrow>
            fst (parse env (PyStr s) parser to_form) =
              exn_bind (fst (parse_with_pint env s)) (\<lambda>pint_quantity.
                fst (translate_quantity env ''pint'' tf pint_quantity)))"
  unfolding parse_after_digest [OF assms] run_bind_extern_Inr
  by (auto simp: run_bind_fst)

theorem parse_routes_through_pint_witness:
  "fst (parse example_env (PyStr ''[1, 2] nm'') None None) =
     Inr (PyQuantity ''pint'' (PyList [PyInt 1, PyInt 2]) '' nm'') \<and>
   fst (parse_with_pint example_env ''[1, 2] nm'') =
     Inr (PyQuantity ''pint'' (PyList [PyInt 1, PyInt 2]) '' nm'') \<and>
   fst (parse example_env (PyStr ''[1, 2] nm'') (Some ''pint'') (Some ''unyt'')) =
     Inr (PyQuantity ''unyt'' (PyList [PyInt 1, PyInt 2]) '' nm'') \<and>
   fst (parse example_env (PyStr ''10 nm'') (Some ''pint'') (Some ''string'')) =
     Inr (PyQuantity ''string'' (PyInt 1) ''10 nm'')"
proof -
  have a: "digest_parser example_env None = Inr ''pint''"
    by (simp add: example_env_def example_digest_def)
  have b: "digest_to_form example_env None = Inr ''pint''"
    by (simp add: example_env_def example_digest_def)
  have c: "digest_parser example_env (Some ''pint'') = Inr ''pint''"
    by (simp add: example_env_def example_digest_def)
  have d: "digest_to_form example_env (Some ''unyt'') = Inr ''unyt''"
    by (simp add: example_env_def example_digest_def)
  have e: "digest_to_form example_env (Some ''string'') = Inr ''string''"
    by (simp add: example_env_def example_digest_def)
  have p1: "fst (parse_with_pint example_env ''[1, 2] nm'') =
     Inr (PyQuantity ''pint'' (PyList [PyInt 1, PyInt 2]) '' nm'')"
    by (simp add: parse_with_pint_def startswith_def value_string_def unit_string_def
        end_list_def slice_to_def slice_from_def slice_bound_def run_bind_def run_extern_def
        translate_quantity_def example_env_def example_table_def example_literal_eval_def)
  have p2: "fst (parse_with_pint example_env ''10 nm'') =
     Inr (PyQuantity ''pint'' (PyInt 1) ''10 nm'')"
    by (simp add: parse_with_pint_def startswith_def run_extern_def
        translate_quantity_def example_env_def example_table_def)
  have t: "dict_translate_quantity example_env = example_table"
    by (simp add: example_env_def)
  from parse_routes_through_pint [OF a b, of "''[1, 2] nm''"]
    parse_routes_through_pint [OF c d, of "''[1, 2] nm''"]
    parse_routes_through_pint [OF c e, of "''10 nm''"] p1 p2
  show ?thesis
    by (simp add: exn_bind_def translate_quantity_def t example_table_def run_extern_def)
qed

section \<open>The messages of the exception classes\<close>

lemma library_message_names_caller: "sublist caller (library_message lib caller web)"
proof -
  have "library_message lib caller web =
        (''The python library '' @ lib @ '' was not found. '' @
         ''Although '' @ lib @ '' is not considered a dependency, it needs '' @
         ''to be installed to execute the '') @ caller @
        ('' method the way you require. '' @
         ''If you still need help, open a new issue in '' @ web @ ''.'')"
    by (simp add: library_message_def)
  then show ?thesis by (simp only: sublist_appendI)
qed

lemma LibraryNotFoundError_names_caller:
  "LibraryNotFoundError_init env (f # fs) [lib] =
     Inr (LibraryNotFoundError (library_message lib f (github_issues_web env)))"
  by (simp add: LibraryNotFoundError_init_def exn_bind_def bind_args_def import_from_def
      frame_at_def stack_def name_lookup_def)

lemma LibraryWithoutParserError_names_caller:
  "LibraryWithoutParserError_init env (f # fs) [lib] =
     Inr (LibraryWithoutParserError (library_message lib f (github_issues_web env)))"
  by (simp add: LibraryWithoutParserError_init_def exn_bind_def bind_args_def import_from_def
      frame_at_def stack_def name_lookup_def)

lemma NoStandardsError_ignores_caller:
  "NoStandardsError_init env (f # fs) [] = NoStandardsError_init env (g # gs) []"
  by (simp add: NoStandardsError_init_def exn_bind_def bind_args_def import_from_def
      frame_at_def stack_def name_lookup_def)

text \<open>
  C8. The message that \<open>UnknownFormError\<close> is to carry when a digestion function rejects
  a candidate is never built. For every environment, call stack and argument list the
  constructor ends in an exception of its own: \<open>TypeError\<close> when any argument is passed
  (\<open>__init__\<close> takes none, so the candidate cannot be handed over), \<open>ImportError\<close> when
  the package \<open>sabueso\<close> it imports from is absent, \<open>IndexError\<close> when no caller frame
  exists, and otherwise \<open>NameError\<close> for \<open>method_name\<close>, the name the message formats
  where the caller's name was read into \<open>caller_name\<close>. Evaluated for a call without
  arguments from \<open>digest_to_form\<close>, for a call passing the candidate \<open>pnt\<close>, and with
  \<open>sabueso\<close> absent.
\<close>

theorem UnknownFormError_is_never_built:
  "(UnknownFormError_init env frames args = Inl (TypeError ''__init__'') \<or>
    UnknownFormError_init env frames args = Inl (ImportError ''sabueso'') \<or>
    UnknownFormError_init env frames args = Inl IndexError \<or>
    UnknownFormError_init env frames args = Inl (NameError ''method_name'')) \<and>
   UnknownFormError_init example_env [''digest_to_form'', ''parse'', ''<module>''] [] =
     Inl (NameError ''method_name'') \<and>
   UnknownFormError_init example_env [''digest_to_form'', ''parse'', ''<module>''] [''pnt''] =
     Inl (TypeError ''__init__'') \<and>
   UnknownFormError_init (example_env\<lparr>sabueso_github_issues_web := None\<rparr>)
       [''digest_to_form'', ''parse'', ''<module>''] [] =
     Inl (ImportError ''sabueso'')"
proof -
  have general:
    "UnknownFormError_init env frames args = Inl (TypeError ''__init__'') \<or>
     UnknownFormError_init env frames args = Inl (ImportError ''sabueso'') \<or>
     UnknownFormError_init env frames args = Inl IndexError \<or>
     UnknownFormError_init env frames args = Inl (NameError ''method_name'')"
    by (cases "sabueso_github_issues_web env"; cases frames)
      (simp_all add: UnknownFormError_init_def exn_bind_def bind_args_def import_from_def
        frame_at_def stack_def name_lookup_def)
  have a: "UnknownFormError_init example_env [''digest_to_form'', ''parse'', ''<module>''] [] =
     Inl (NameError ''method_name'')"
    by (simp add: UnknownFormError_init_def exn_bind_def bind_args_def import_from_def
        frame_at_def stack_def name_lookup_def example_env_def)
  have b: "UnknownFormError_init example_env [''digest_to_form'', ''parse'', ''<module>'']
       [''pnt''] = Inl (TypeError ''__init__'')"
    by (simp add: UnknownFormError_init_def exn_bind_def bind_args_def)
  have c: "UnknownFormError_init (example_env\<lparr>sabueso_github_issues_web := None\<rparr>)
       [''digest_to_form'', ''parse'', ''<module>''] [] = Inl (ImportError ''sabueso'')"
    by (simp add: UnknownFormError_init_def exn_bind_def bind_args_def import_from_def
        example_env_def)
  from general a b c show ?thesis by blast
qed

text \<open>
  C9. The claim that every exception of the taxonomy is built with a message naming the
  calling function fails on two of the four classes of the file. Evaluated in the example
  environment: \<open>NoStandardsError()\<close> called from a function \<open>standardize\<close> reads the
  caller's name from the stack and leaves it out of the message; \<open>UnknownFormError()\<close>
  called from \<open>digest_to_form\<close> formats the name \<open>method_name\<close>, which no scope defines,
  and raises \<open>NameError\<close> (or \<open>ImportError\<close> when the package \<open>sabueso\<close> it imports from
  is absent) instead of building a message.
\<close>

theorem exception_messages_without_caller:
  "NoStandardsError_init example_env [''standardize'', ''<module>''] [] =
     Inr (NoStandardsError
       (''The input quantity method has no standard. '' @
        ''A complete set of standard units need to be defined. '' @
        ''Check  for more information. '' @
        ''If you still need help, open a new issue in '' @
        ''https://github.com/uibcdf/PyUnitWizard/issues.'')) \<and>
   \<not> sublist ''standardize''
       (''The input quantity method has no standard. '' @
        ''A complete set of standard units need to be defined. '' @
        ''Check  for more information. '' @
        ''If you still need help, open a new issue in '' @
        ''https://github.com/uibcdf/PyUnitWizard/issues.'') \<and>
   UnknownFormError_init example_env [''digest_to_form'', ''<module>''] [] =
     Inl (NameError ''method_name'') \<and>
   UnknownFormError_init (example_env\<lparr>sabueso_github_issues_web := None\<rparr>)
       [''digest_to_form'', ''<module>''] [] =
     Inl (ImportError ''sabueso'')"
proof -
  have a: "NoStandardsError_init example_env [''standardize'', ''<module>''] [] =
     Inr (NoStandardsError
       (''The input quantity method has no standard. '' @
        ''A complete set of standard units need to be defined. '' @
        ''Check  for more information. '' @
        ''If you still need help, open a new issue in '' @
        ''https://github.com/uibcdf/PyUnitWizard/issues.''))"
    by (simp add: NoStandardsError_init_def exn_bind_def bind_args_def import_from_def
        frame_at_def stack_def name_lookup_def example_env_def)
  have b: "\<not> sublist ''standardize''
       (''The input quantity method has no standard. '' @
        ''A complete set of standard units need to be defined. '' @
        ''Check  for more information. '' @
        ''If you still need help, open a new issue in '' @
        ''https://github.com/uibcdf/PyUnitWizard/issues.'')"
    by (simp add: sublist_Cons_right)
  have c: "UnknownFormError_init example_env [''digest_to_form'', ''<module>''] [] =
     Inl (NameError ''method_name'')"
    by (simp add: UnknownFormError_init_def exn_bind_def bind_args_def import_from_def
        frame_at_def stack_def name_lookup_def example_env_def)
  have d: "UnknownFormError_init (example_env\<lparr>sabueso_github_issues_web := None\<rparr>)
       [''digest_to_form'', ''<module>''] [] = Inl (ImportError ''sabueso'')"
    by (simp add: UnknownFormError_init_def exn_bind_def bind_args_def import_from_def
        example_env_def)
  from a b c d show ?thesis by blast
qed

end
